theory Spec2Isabelle
  imports Main
begin

section \<open>Sync and single variables of the Chapel runtime (pthreads configuration)\<close>

subsection \<open>Data model of \<^verbatim>\<open>chpl_cfg_threads.h\<close>\<close>

text \<open>
  A \<^verbatim>\<open>pthread_mutex_t\<close> is free, held by some task, or unusable (destroyed or
  corrupt), in which case \<^verbatim>\<open>pthread_mutex_lock\<close> returns a nonzero code.
\<close>

datatype chpl_mutex_t = Unlocked | Locked | Invalid

text \<open>
  A condition variable is observed through the number of wake-ups issued on it so far:
  a task that starts waiting at count \<open>g\<close> sleeps until the count differs from \<open>g\<close>.
\<close>

type_synonym chpl_condvar_t = nat

text \<open>
  \<^verbatim>\<open>chpl_single_aux_t\<close> and \<^verbatim>\<open>chpl_sync_aux_t\<close>. The two structs start with the same
  three fields, so the second is declared as the first plus \<^verbatim>\<open>signal_empty\<close>.
\<close>

record chpl_single_aux_t =
  is_full :: bool
  lock :: chpl_mutex_t
  signal_full :: chpl_condvar_t

record chpl_sync_aux_t = chpl_single_aux_t +
  signal_empty :: chpl_condvar_t

text \<open>
  The variables the macros are applied to: a payload field \<^verbatim>\<open>value\<close> next to
  \<^verbatim>\<open>sync_aux\<close> or \<^verbatim>\<open>single_aux\<close>.
\<close>

record 'a chpl_var =
  "value" :: 'a

record 'a syncvar = "'a chpl_var" +
  sync_aux :: chpl_sync_aux_t

record 'a singlevar = "'a chpl_var" +
  single_aux :: chpl_single_aux_t

subsection \<open>Tasks, suspension and outcomes\<close>

text \<open>
  A macro is run by one task. The other tasks are a list of steps on the variable; they
  run only while the calling task is suspended (on the lock or on a condition variable),
  one step at a time, in order.
\<close>

type_synonym 'c others = "('c \<Rightarrow> 'c) list"

text \<open>
  \<open>suspend_until ready env c\<close>: the caller sleeps until \<open>ready\<close> holds, letting the
  other tasks run. \<open>None\<close>: the other tasks have finished and \<open>ready\<close> never held, so
  the caller stays blocked for ever.
\<close>

fun suspend_until :: "('c \<Rightarrow> bool) \<Rightarrow> 'c others \<Rightarrow> 'c \<Rightarrow> ('c \<times> 'c others) option" where
  "suspend_until ready [] c = (if ready c then Some (c, []) else None)"
| "suspend_until ready (e # env) c =
     (if ready c then Some (c, e # env) else suspend_until ready env (e c))"

text \<open>
  What a macro does to its caller: it returns, it never returns, or it ends the process
  through \<^verbatim>\<open>chpl_internal_error\<close>.
\<close>

datatype 'r outcome = Returns 'r | Blocks | Aborts string

text \<open>
  Modelled from the spec: \<^verbatim>\<open>chpl_internal_error\<close> (error.c is not among the sources).
  The fatal-error reporter terminates the process with the given message.
\<close>

definition chpl_internal_error :: "string \<Rightarrow> 'r outcome" where
  "chpl_internal_error msg = Aborts msg"

text \<open>
  Modelled from the spec: \<^verbatim>\<open>chpl_error\<close> (error.c is not among the sources). The
  recoverable-error reporter signals a user-visible error with its source location and
  returns control to the caller; the report is the value produced.
\<close>

type_synonym report = "string \<times> int \<times> string"

definition chpl_error :: "string \<Rightarrow> int \<Rightarrow> string \<Rightarrow> report" where
  "chpl_error msg lineno filename = (msg, lineno, filename)"

text \<open>The code \<^verbatim>\<open>pthread_mutex_lock\<close> returns on an unusable mutex.\<close>

definition EINVAL :: int where
  "EINVAL = 22"

subsection \<open>Blocking primitives on sync variables\<close>

text \<open>
  Modelled from the spec: \<^verbatim>\<open>chpl_sync_lock\<close> (threads-pthreads.c is not among the
  sources). Acquire the variable's lock, blocking while another task holds it; the
  result code is nonzero when the lock itself is unusable.
\<close>

definition chpl_sync_lock ::
  "'a syncvar others \<Rightarrow> 'a syncvar \<Rightarrow> (int \<times> 'a syncvar \<times> 'a syncvar others) option" where
  "chpl_sync_lock env c =
     (case suspend_until (\<lambda>c'. lock (sync_aux c') \<noteq> Locked) env c of
        None \<Rightarrow> None
      | Some (c', env') \<Rightarrow>
          if lock (sync_aux c') = Invalid then Some (EINVAL, c', env')
          else Some (0, c'\<lparr>sync_aux := (sync_aux c')\<lparr>lock := Locked\<rparr>\<rparr>, env'))"

text \<open>
  Modelled from the spec: \<^verbatim>\<open>chpl_sync_unlock\<close>. Release the lock.
\<close>

definition chpl_sync_unlock :: "'a syncvar \<Rightarrow> 'a syncvar" where
  "chpl_sync_unlock c =
     (if lock (sync_aux c) = Locked then c\<lparr>sync_aux := (sync_aux c)\<lparr>lock := Unlocked\<rparr>\<rparr> else c)"

text \<open>
  One round of a wait loop: release the lock, sleep on the condition variable until it
  is signalled, reacquire the lock on wake.
\<close>

definition sync_cond_wait_full ::
  "'a syncvar others \<Rightarrow> 'a syncvar \<Rightarrow> (int \<times> 'a syncvar \<times> 'a syncvar others) option" where
  "sync_cond_wait_full env c =
     (case suspend_until (\<lambda>c'. signal_full (sync_aux c') \<noteq> signal_full (sync_aux c)) env
             (chpl_sync_unlock c) of
        None \<Rightarrow> None
      | Some (c', env') \<Rightarrow> chpl_sync_lock env' c')"

definition sync_cond_wait_empty ::
  "'a syncvar others \<Rightarrow> 'a syncvar \<Rightarrow> (int \<times> 'a syncvar \<times> 'a syncvar others) option" where
  "sync_cond_wait_empty env c =
     (case suspend_until (\<lambda>c'. signal_empty (sync_aux c') \<noteq> signal_empty (sync_aux c)) env
             (chpl_sync_unlock c) of
        None \<Rightarrow> None
      | Some (c', env') \<Rightarrow> chpl_sync_lock env' c')"

lemma suspend_until_length:
  "suspend_until ready env c = Some (c', env') \<Longrightarrow> length env' \<le> length env"
  by (induction env arbitrary: c) (auto split: if_splits intro: le_SucI)

lemma suspend_until_shorter:
  "suspend_until ready env c = Some (c', env') \<Longrightarrow> \<not> ready c \<Longrightarrow> length env' < length env"
  by (cases env) (auto split: if_splits dest: suspend_until_length)

lemma chpl_sync_lock_length:
  "chpl_sync_lock env c = Some (rc, c', env') \<Longrightarrow> length env' \<le> length env"
  by (auto simp: chpl_sync_lock_def split: option.splits if_splits dest: suspend_until_length)

lemma sync_cond_wait_full_shorter:
  "sync_cond_wait_full env c = Some (rc, c', env') \<Longrightarrow> length env' < length env"
  unfolding sync_cond_wait_full_def
  by (auto simp: chpl_sync_unlock_def split: option.splits if_splits
      dest!: chpl_sync_lock_length suspend_until_shorter)

lemma sync_cond_wait_empty_shorter:
  "sync_cond_wait_empty env c = Some (rc, c', env') \<Longrightarrow> length env' < length env"
  unfolding sync_cond_wait_empty_def
  by (auto simp: chpl_sync_unlock_def split: option.splits if_splits
      dest!: chpl_sync_lock_length suspend_until_shorter)

text \<open>
  The loops of the two waiting primitives: while the lock is held (\<open>rc = 0\<close>) and the
  state is not the awaited one, wait again.
\<close>

function sync_while_empty ::
  "int \<Rightarrow> 'a syncvar others \<Rightarrow> 'a syncvar \<Rightarrow> (int \<times> 'a syncvar \<times> 'a syncvar others) option" where
  "sync_while_empty rc env c =
     (if rc = 0 \<and> \<not> is_full (sync_aux c)
      then (case sync_cond_wait_full env c of
              None \<Rightarrow> None
            | Some (rc', c', env') \<Rightarrow> sync_while_empty rc' env' c')
      else Some (rc, c, env))"
  by pat_completeness auto
termination
  by (relation "measure (\<lambda>(rc, env, c). length env)") (auto dest: sync_cond_wait_full_shorter)

declare sync_while_empty.simps [simp del]

lemma sync_while_empty_stop:
  "rc \<noteq> 0 \<or> is_full (sync_aux c) \<Longrightarrow> sync_while_empty rc env c = Some (rc, c, env)"
  by (subst sync_while_empty.simps) auto

lemma sync_while_empty_step:
  "\<not> is_full (sync_aux c) \<Longrightarrow>
   sync_while_empty 0 env c =
     (case sync_cond_wait_full env c of
        None \<Rightarrow> None
      | Some (rc', c', env') \<Rightarrow> sync_while_empty rc' env' c')"
  by (subst sync_while_empty.simps) simp

function sync_while_full ::
  "int \<Rightarrow> 'a syncvar others \<Rightarrow> 'a syncvar \<Rightarrow> (int \<times> 'a syncvar \<times> 'a syncvar others) option" where
  "sync_while_full rc env c =
     (if rc = 0 \<and> is_full (sync_aux c)
      then (case sync_cond_wait_empty env c of
              None \<Rightarrow> None
            | Some (rc', c', env') \<Rightarrow> sync_while_full rc' env' c')
      else Some (rc, c, env))"
  by pat_completeness auto
termination
  by (relation "measure (\<lambda>(rc, env, c). length env)") (auto dest: sync_cond_wait_empty_shorter)

declare sync_while_full.simps [simp del]

lemma sync_while_full_stop:
  "rc \<noteq> 0 \<or> \<not> is_full (sync_aux c) \<Longrightarrow> sync_while_full rc env c = Some (rc, c, env)"
  by (subst sync_while_full.simps) auto

lemma sync_while_full_step:
  "is_full (sync_aux c) \<Longrightarrow>
   sync_while_full 0 env c =
     (case sync_cond_wait_empty env c of
        None \<Rightarrow> None
      | Some (rc', c', env') \<Rightarrow> sync_while_full rc' env' c')"
  by (subst sync_while_full.simps) simp

text \<open>
  Modelled from the spec: \<^verbatim>\<open>chpl_sync_wait_full_and_lock\<close>. Acquire the lock; while the
  state is Empty, release the lock, block on the full-side condition variable and
  reacquire on wake; return with the lock held. The result code is nonzero only when
  lock acquisition itself fails.
\<close>

definition chpl_sync_wait_full_and_lock ::
  "'a syncvar others \<Rightarrow> 'a syncvar \<Rightarrow> int \<Rightarrow> string \<Rightarrow>
     (int \<times> 'a syncvar \<times> 'a syncvar others) option" where
  "chpl_sync_wait_full_and_lock env c lineno filename =
     (case chpl_sync_lock env c of
        None \<Rightarrow> None
      | Some (rc, c', env') \<Rightarrow> sync_while_empty rc env' c')"

text \<open>
  Modelled from the spec: \<^verbatim>\<open>chpl_sync_wait_empty_and_lock\<close>. Symmetric, waiting for
  Empty on the empty-side condition variable.
\<close>

definition chpl_sync_wait_empty_and_lock ::
  "'a syncvar others \<Rightarrow> 'a syncvar \<Rightarrow> int \<Rightarrow> string \<Rightarrow>
     (int \<times> 'a syncvar \<times> 'a syncvar others) option" where
  "chpl_sync_wait_empty_and_lock env c lineno filename =
     (case chpl_sync_lock env c of
        None \<Rightarrow> None
      | Some (rc, c', env') \<Rightarrow> sync_while_full rc env' c')"

text \<open>
  Modelled from the spec: \<^verbatim>\<open>chpl_sync_mark_and_signal_full\<close> and
  \<^verbatim>\<open>chpl_sync_mark_and_signal_empty\<close>. Called with the lock held: set the state, wake
  all the waiters on the corresponding condition variable, release the lock.
\<close>

definition chpl_sync_mark_and_signal_full :: "'a syncvar \<Rightarrow> 'a syncvar" where
  "chpl_sync_mark_and_signal_full c =
     chpl_sync_unlock
       (c\<lparr>sync_aux := (sync_aux c)\<lparr>is_full := True, signal_full := Suc (signal_full (sync_aux c))\<rparr>\<rparr>)"

definition chpl_sync_mark_and_signal_empty :: "'a syncvar \<Rightarrow> 'a syncvar" where
  "chpl_sync_mark_and_signal_empty c =
     chpl_sync_unlock
       (c\<lparr>sync_aux := (sync_aux c)\<lparr>is_full := False, signal_empty := Suc (signal_empty (sync_aux c))\<rparr>\<rparr>)"

subsection \<open>The sync-variable macros\<close>

text \<open>
  The read macros take the destination \<open>x\<close> and the variable \<open>y\<close> and give back both;
  the write macros take the variable \<open>x\<close> and the value \<open>y\<close>. Each also gives back the
  steps the other tasks have not taken yet.
\<close>

definition chpl_read_FE ::
  "'a syncvar others \<Rightarrow> 'a \<Rightarrow> 'a syncvar \<Rightarrow> int \<Rightarrow> string \<Rightarrow>
     ('a \<times> 'a syncvar \<times> 'a syncvar others) outcome" where
  "chpl_read_FE env x y lineno filename =
     (case chpl_sync_wait_full_and_lock env y lineno filename of
        None \<Rightarrow> Blocks
      | Some (rc, y', env') \<Rightarrow>
          if rc = 0 then Returns (value y', chpl_sync_mark_and_signal_empty y', env')
          else Returns (x, y', env'))"

definition chpl_read_FF ::
  "'a syncvar others \<Rightarrow> 'a \<Rightarrow> 'a syncvar \<Rightarrow> int \<Rightarrow> string \<Rightarrow>
     ('a \<times> 'a syncvar \<times> 'a syncvar others) outcome" where
  "chpl_read_FF env x y lineno filename =
     (case chpl_sync_wait_full_and_lock env y lineno filename of
        None \<Rightarrow> Blocks
      | Some (rc, y', env') \<Rightarrow>
          if rc = 0 then Returns (value y', chpl_sync_mark_and_signal_full y', env')
          else Returns (x, y', env'))"

definition chpl_read_XX ::
  "'a syncvar others \<Rightarrow> 'a \<Rightarrow> 'a syncvar \<Rightarrow> ('a \<times> 'a syncvar \<times> 'a syncvar others) outcome" where
  "chpl_read_XX env x y =
     (case chpl_sync_lock env y of
        None \<Rightarrow> Blocks
      | Some (rc, y', env') \<Rightarrow>
          if rc = 0 then Returns (value y', chpl_sync_unlock y', env')
          else Returns (x, y', env'))"

definition chpl_write_EF ::
  "'a syncvar others \<Rightarrow> 'a syncvar \<Rightarrow> 'a \<Rightarrow> int \<Rightarrow> string \<Rightarrow>
     ('a syncvar \<times> 'a syncvar others) outcome" where
  "chpl_write_EF env x y lineno filename =
     (case chpl_sync_wait_empty_and_lock env x lineno filename of
        None \<Rightarrow> Blocks
      | Some (rc, x', env') \<Rightarrow>
          if rc = 0 then Returns (chpl_sync_mark_and_signal_full (x'\<lparr>value := y\<rparr>), env')
          else chpl_internal_error ''invalid mutex in _chpl_write_EF'')"

definition chpl_write_FF ::
  "'a syncvar others \<Rightarrow> 'a syncvar \<Rightarrow> 'a \<Rightarrow> int \<Rightarrow> string \<Rightarrow>
     ('a syncvar \<times> 'a syncvar others) outcome" where
  "chpl_write_FF env x y lineno filename =
     (case chpl_sync_wait_full_and_lock env x lineno filename of
        None \<Rightarrow> Blocks
      | Some (rc, x', env') \<Rightarrow>
          if rc = 0 then Returns (chpl_sync_mark_and_signal_full (x'\<lparr>value := y\<rparr>), env')
          else chpl_internal_error ''invalid mutex in _chpl_write_FF'')"

definition chpl_write_XF ::
  "'a syncvar others \<Rightarrow> 'a syncvar \<Rightarrow> 'a \<Rightarrow> ('a syncvar \<times> 'a syncvar others) outcome" where
  "chpl_write_XF env x y =
     (case chpl_sync_lock env x of
        None \<Rightarrow> Blocks
      | Some (rc, x', env') \<Rightarrow>
          if rc = 0 then Returns (chpl_sync_mark_and_signal_full (x'\<lparr>value := y\<rparr>), env')
          else chpl_internal_error ''invalid mutex in _chpl_write_XF'')"

definition chpl_sync_reset ::
  "('a::zero) syncvar others \<Rightarrow> 'a syncvar \<Rightarrow> ('a syncvar \<times> 'a syncvar others) outcome" where
  "chpl_sync_reset env x =
     (case chpl_sync_lock env x of
        None \<Rightarrow> Blocks
      | Some (rc, x', env') \<Rightarrow>
          if rc = 0 then Returns (chpl_sync_mark_and_signal_empty (x'\<lparr>value := 0\<rparr>), env')
          else chpl_internal_error ''invalid mutex in _chpl_sync_reset'')"

subsection \<open>Blocking primitives on single variables\<close>

text \<open>
  Modelled from the spec: \<^verbatim>\<open>chpl_single_lock\<close> (threads-pthreads.c is not among the
  sources). Acquire the variable's lock, as for a sync variable.
\<close>

definition chpl_single_lock ::
  "'a singlevar others \<Rightarrow> 'a singlevar \<Rightarrow> (int \<times> 'a singlevar \<times> 'a singlevar others) option" where
  "chpl_single_lock env c =
     (case suspend_until (\<lambda>c'. lock (single_aux c') \<noteq> Locked) env c of
        None \<Rightarrow> None
      | Some (c', env') \<Rightarrow>
          if lock (single_aux c') = Invalid then Some (EINVAL, c', env')
          else Some (0, c'\<lparr>single_aux := (single_aux c')\<lparr>lock := Locked\<rparr>\<rparr>, env'))"

definition single_unlock :: "'a singlevar \<Rightarrow> 'a singlevar" where
  "single_unlock c =
     (if lock (single_aux c) = Locked then c\<lparr>single_aux := (single_aux c)\<lparr>lock := Unlocked\<rparr>\<rparr>
      else c)"

text \<open>
  Modelled from the spec: \<^verbatim>\<open>chpl_single_is_full\<close>. Returns the current fullness; it
  never blocks and takes no lock. The macros pass the address of the value first and
  \<^verbatim>\<open>true\<close> (non-blocking) last.
\<close>

definition chpl_single_is_full :: "'a \<Rightarrow> chpl_single_aux_t \<Rightarrow> bool \<Rightarrow> bool" where
  "chpl_single_is_full val_ptr s simple_single_var = is_full s"

definition single_cond_wait_full ::
  "'a singlevar others \<Rightarrow> 'a singlevar \<Rightarrow> (int \<times> 'a singlevar \<times> 'a singlevar others) option" where
  "single_cond_wait_full env c =
     (case suspend_until (\<lambda>c'. signal_full (single_aux c') \<noteq> signal_full (single_aux c)) env
             (single_unlock c) of
        None \<Rightarrow> None
      | Some (c', env') \<Rightarrow> chpl_single_lock env' c')"

lemma chpl_single_lock_length:
  "chpl_single_lock env c = Some (rc, c', env') \<Longrightarrow> length env' \<le> length env"
  by (auto simp: chpl_single_lock_def split: option.splits if_splits dest: suspend_until_length)

lemma single_cond_wait_full_shorter:
  "single_cond_wait_full env c = Some (rc, c', env') \<Longrightarrow> length env' < length env"
  unfolding single_cond_wait_full_def
  by (auto simp: single_unlock_def split: option.splits if_splits
      dest!: chpl_single_lock_length suspend_until_shorter)

function single_while_empty ::
  "int \<Rightarrow> 'a singlevar others \<Rightarrow> 'a singlevar \<Rightarrow>
     (int \<times> 'a singlevar \<times> 'a singlevar others) option" where
  "single_while_empty rc env c =
     (if rc = 0 \<and> \<not> is_full (single_aux c)
      then (case single_cond_wait_full env c of
              None \<Rightarrow> None
            | Some (rc', c', env') \<Rightarrow> single_while_empty rc' env' c')
      else Some (rc, c, env))"
  by pat_completeness auto
termination
  by (relation "measure (\<lambda>(rc, env, c). length env)") (auto dest: single_cond_wait_full_shorter)

declare single_while_empty.simps [simp del]

lemma single_while_empty_stop:
  "rc \<noteq> 0 \<or> is_full (single_aux c) \<Longrightarrow> single_while_empty rc env c = Some (rc, c, env)"
  by (subst single_while_empty.simps) auto

lemma single_while_empty_step:
  "\<not> is_full (single_aux c) \<Longrightarrow>
   single_while_empty 0 env c =
     (case single_cond_wait_full env c of
        None \<Rightarrow> None
      | Some (rc', c', env') \<Rightarrow> single_while_empty rc' env' c')"
  by (subst single_while_empty.simps) simp

text \<open>
  Modelled from the spec: \<^verbatim>\<open>chpl_single_wait_full\<close>. Acquire the lock and wait for the
  Full state, as \<^verbatim>\<open>chpl_sync_wait_full_and_lock\<close> does; return with the lock held.
\<close>

definition chpl_single_wait_full ::
  "'a singlevar others \<Rightarrow> 'a singlevar \<Rightarrow> int \<Rightarrow> string \<Rightarrow>
     (int \<times> 'a singlevar \<times> 'a singlevar others) option" where
  "chpl_single_wait_full env c lineno filename =
     (case chpl_single_lock env c of
        None \<Rightarrow> None
      | Some (rc, c', env') \<Rightarrow> single_while_empty rc env' c')"

text \<open>
  Modelled from the spec: \<^verbatim>\<open>chpl_single_mark_and_signal_full\<close>. Called with the lock
  held: set the state to Full, wake all the waiters, release the lock.
\<close>

definition chpl_single_mark_and_signal_full :: "'a singlevar \<Rightarrow> 'a singlevar" where
  "chpl_single_mark_and_signal_full c =
     single_unlock
       (c\<lparr>single_aux :=
            (single_aux c)\<lparr>is_full := True, signal_full := Suc (signal_full (single_aux c))\<rparr>\<rparr>)"

subsection \<open>The single-variable macros\<close>

definition chpl_single_read_FF ::
  "'a singlevar others \<Rightarrow> 'a \<Rightarrow> 'a singlevar \<Rightarrow> int \<Rightarrow> string \<Rightarrow>
     ('a \<times> 'a singlevar \<times> 'a singlevar others) outcome" where
  "chpl_single_read_FF env x y lineno filename =
     (if chpl_single_is_full (value y) (single_aux y) True then Returns (value y, y, env)
      else case chpl_single_wait_full env y lineno filename of
             None \<Rightarrow> Blocks
           | Some (rc, y', env') \<Rightarrow>
               if rc = 0 then Returns (value y', chpl_single_mark_and_signal_full y', env')
               else Returns (x, y', env'))"

text \<open>
  The third component of the result lists the errors reported through
  \<^verbatim>\<open>chpl_error\<close> during the call.
\<close>

definition chpl_single_write_EF ::
  "'a singlevar others \<Rightarrow> 'a singlevar \<Rightarrow> 'a \<Rightarrow> int \<Rightarrow> string \<Rightarrow>
     ('a singlevar \<times> 'a singlevar others \<times> report list) outcome" where
  "chpl_single_write_EF env x y lineno filename =
     (case chpl_single_lock env x of
        None \<Rightarrow> Blocks
      | Some (rc, x', env') \<Rightarrow>
          if rc = 0 then
            if chpl_single_is_full (value x') (single_aux x') True
            then Returns (x', env', [chpl_error ''single var already defined'' lineno filename])
            else Returns (chpl_single_mark_and_signal_full (x'\<lparr>value := y\<rparr>), env', [])
          else chpl_internal_error ''invalid mutex in _chpl_single_write_EF'')"

text \<open>Two plain assignments: no call, so no lock, no signal and no suspension.\<close>

definition chpl_single_reset :: "('a::zero) singlevar \<Rightarrow> 'a singlevar" where
  "chpl_single_reset x = x\<lparr>value := 0, single_aux := (single_aux x)\<lparr>is_full := False\<rparr>\<rparr>"

subsection \<open>Sequences of calls and sample variables\<close>

text \<open>
  \<open>n\<close> successive \<^verbatim>\<open>_chpl_read_FF\<close> on the same variable; the values read are collected
  in order.
\<close>

fun chpl_read_FF_times ::
  "nat \<Rightarrow> 'a syncvar others \<Rightarrow> 'a \<Rightarrow> 'a syncvar \<Rightarrow> int \<Rightarrow> string \<Rightarrow>
     ('a list \<times> 'a syncvar \<times> 'a syncvar others) outcome" where
  "chpl_read_FF_times 0 env x y lineno filename = Returns ([], y, env)"
| "chpl_read_FF_times (Suc n) env x y lineno filename =
     (case chpl_read_FF env x y lineno filename of
        Returns (x', y', env') \<Rightarrow>
          (case chpl_read_FF_times n env' x' y' lineno filename of
             Returns (xs, y'', env'') \<Rightarrow> Returns (x' # xs, y'', env'')
           | Blocks \<Rightarrow> Blocks
           | Aborts msg \<Rightarrow> Aborts msg)
      | Blocks \<Rightarrow> Blocks
      | Aborts msg \<Rightarrow> Aborts msg)"

text \<open>
  A whole call made by another task, taken as one of its steps: the variable as the call
  leaves it, or unchanged when the call does not return.
\<close>

definition finished :: "'c \<Rightarrow> ('c \<times> 'b) outcome \<Rightarrow> 'c" where
  "finished c r = (case r of Returns (c', _) \<Rightarrow> c' | Blocks \<Rightarrow> c | Aborts _ \<Rightarrow> c)"

text \<open>The messages passed to \<^verbatim>\<open>chpl_error\<close> during a call.\<close>

definition reported_messages :: "('c \<times> 'e \<times> report list) outcome \<Rightarrow> string list" where
  "reported_messages r =
     (case r of Returns (_, _, errs) \<Rightarrow> map fst errs | Blocks \<Rightarrow> [] | Aborts _ \<Rightarrow> [])"

definition int_sync_empty :: "int syncvar" where
  "int_sync_empty =
     \<lparr>value = 0,
      sync_aux = \<lparr>is_full = False, lock = Unlocked, signal_full = 0, signal_empty = 0\<rparr>\<rparr>"

definition int_sync_full :: "int syncvar" where
  "int_sync_full =
     \<lparr>value = 5,
      sync_aux = \<lparr>is_full = True, lock = Unlocked, signal_full = 1, signal_empty = 0\<rparr>\<rparr>"

definition int_sync_bad :: "int syncvar" where
  "int_sync_bad =
     \<lparr>value = 5,
      sync_aux = \<lparr>is_full = True, lock = Invalid, signal_full = 1, signal_empty = 0\<rparr>\<rparr>"

definition int_single_empty :: "int singlevar" where
  "int_single_empty =
     \<lparr>value = 0, single_aux = \<lparr>is_full = False, lock = Unlocked, signal_full = 0\<rparr>\<rparr>"

definition int_single_written :: "int singlevar" where
  "int_single_written =
     \<lparr>value = 1, single_aux = \<lparr>is_full = True, lock = Unlocked, signal_full = 1\<rparr>\<rparr>"

definition int_single_held :: "int singlevar" where
  "int_single_held =
     \<lparr>value = 1, single_aux = \<lparr>is_full = True, lock = Locked, signal_full = 1\<rparr>\<rparr>"

section \<open>Calls that do not have to wait\<close>

lemma suspend_until_ready: "ready c \<Longrightarrow> suspend_until ready env c = Some (c, env)"
  by (cases env) simp_all

lemma chpl_sync_lock_Unlocked:
  "lock (sync_aux c) = Unlocked \<Longrightarrow>
   chpl_sync_lock env c = Some (0, c\<lparr>sync_aux := (sync_aux c)\<lparr>lock := Locked\<rparr>\<rparr>, env)"
  by (simp add: chpl_sync_lock_def suspend_until_ready)

lemma chpl_sync_lock_Invalid:
  "lock (sync_aux c) = Invalid \<Longrightarrow> chpl_sync_lock env c = Some (EINVAL, c, env)"
  by (simp add: chpl_sync_lock_def suspend_until_ready)

lemma chpl_sync_wait_full_and_lock_ready:
  "lock (sync_aux c) = Unlocked \<Longrightarrow> is_full (sync_aux c) \<Longrightarrow>
   chpl_sync_wait_full_and_lock env c ln fn =
     Some (0, c\<lparr>sync_aux := (sync_aux c)\<lparr>lock := Locked\<rparr>\<rparr>, env)"
  by (simp add: chpl_sync_wait_full_and_lock_def chpl_sync_lock_Unlocked sync_while_empty_stop)

lemma chpl_sync_wait_empty_and_lock_ready:
  "lock (sync_aux c) = Unlocked \<Longrightarrow> \<not> is_full (sync_aux c) \<Longrightarrow>
   chpl_sync_wait_empty_and_lock env c ln fn =
     Some (0, c\<lparr>sync_aux := (sync_aux c)\<lparr>lock := Locked\<rparr>\<rparr>, env)"
  by (simp add: chpl_sync_wait_empty_and_lock_def chpl_sync_lock_Unlocked sync_while_full_stop)

lemma chpl_sync_wait_Invalid:
  "lock (sync_aux c) = Invalid \<Longrightarrow>
   chpl_sync_wait_full_and_lock env c ln fn = Some (EINVAL, c, env)
   \<and> chpl_sync_wait_empty_and_lock env c ln fn = Some (EINVAL, c, env)"
  by (simp add: chpl_sync_wait_full_and_lock_def chpl_sync_wait_empty_and_lock_def
      chpl_sync_lock_Invalid sync_while_empty_stop sync_while_full_stop EINVAL_def)

lemma chpl_write_EF_ready:
  "lock (sync_aux c) = Unlocked \<Longrightarrow> \<not> is_full (sync_aux c) \<Longrightarrow>
   chpl_write_EF env c v ln fn =
     Returns (c\<lparr>value := v, sync_aux := (sync_aux c)\<lparr>is_full := True,
                signal_full := Suc (signal_full (sync_aux c))\<rparr>\<rparr>, env)"
  by (simp add: chpl_write_EF_def chpl_sync_wait_empty_and_lock_ready
      chpl_sync_mark_and_signal_full_def chpl_sync_unlock_def)

lemma chpl_read_FE_ready:
  "lock (sync_aux c) = Unlocked \<Longrightarrow> is_full (sync_aux c) \<Longrightarrow>
   chpl_read_FE env x c ln fn =
     Returns (value c, c\<lparr>sync_aux := (sync_aux c)\<lparr>is_full := False,
                signal_empty := Suc (signal_empty (sync_aux c))\<rparr>\<rparr>, env)"
  by (simp add: chpl_read_FE_def chpl_sync_wait_full_and_lock_ready
      chpl_sync_mark_and_signal_empty_def chpl_sync_unlock_def)

lemma chpl_read_FF_ready:
  "lock (sync_aux c) = Unlocked \<Longrightarrow> is_full (sync_aux c) \<Longrightarrow>
   chpl_read_FF env x c ln fn =
     Returns (value c,
       c\<lparr>sync_aux := (sync_aux c)\<lparr>signal_full := Suc (signal_full (sync_aux c))\<rparr>\<rparr>, env)"
  by (simp add: chpl_read_FF_def chpl_sync_wait_full_and_lock_ready
      chpl_sync_mark_and_signal_full_def chpl_sync_unlock_def)

lemma chpl_write_FF_ready:
  "lock (sync_aux c) = Unlocked \<Longrightarrow> is_full (sync_aux c) \<Longrightarrow>
   chpl_write_FF env c v ln fn =
     Returns (c\<lparr>value := v,
       sync_aux := (sync_aux c)\<lparr>signal_full := Suc (signal_full (sync_aux c))\<rparr>\<rparr>, env)"
  by (simp add: chpl_write_FF_def chpl_sync_wait_full_and_lock_ready
      chpl_sync_mark_and_signal_full_def chpl_sync_unlock_def)

lemma chpl_read_XX_ready:
  "lock (sync_aux c) = Unlocked \<Longrightarrow> chpl_read_XX env x c = Returns (value c, c, env)"
  by (simp add: chpl_read_XX_def chpl_sync_lock_Unlocked chpl_sync_unlock_def)

lemma chpl_sync_reset_ready:
  "lock (sync_aux c) = Unlocked \<Longrightarrow>
   chpl_sync_reset env c =
     Returns (c\<lparr>value := 0, sync_aux := (sync_aux c)\<lparr>is_full := False,
                signal_empty := Suc (signal_empty (sync_aux c))\<rparr>\<rparr>, env)"
  by (simp add: chpl_sync_reset_def chpl_sync_lock_Unlocked
      chpl_sync_mark_and_signal_empty_def chpl_sync_unlock_def)

lemma read_FF_times_full:
  "lock (sync_aux c) = Unlocked \<Longrightarrow> is_full (sync_aux c) \<Longrightarrow>
   chpl_read_FF_times n env x c ln fn =
     Returns (replicate n (value c),
       c\<lparr>sync_aux := (sync_aux c)\<lparr>signal_full := signal_full (sync_aux c) + n\<rparr>\<rparr>, env)"
proof (induction n arbitrary: x c)
  case 0
  then show ?case by simp
next
  case (Suc n)
  let ?c' = "c\<lparr>sync_aux := (sync_aux c)\<lparr>signal_full := Suc (signal_full (sync_aux c))\<rparr>\<rparr>"
  have first: "chpl_read_FF env x c ln fn = Returns (value c, ?c', env)"
    using Suc.prems by (rule chpl_read_FF_ready)
  have rest: "chpl_read_FF_times n env (value c) ?c' ln fn =
      Returns (replicate n (value ?c'),
        ?c'\<lparr>sync_aux := (sync_aux ?c')\<lparr>signal_full := signal_full (sync_aux ?c') + n\<rparr>\<rparr>, env)"
    using Suc.prems by (intro Suc.IH) simp_all
  show ?case by (simp add: first rest)
qed

lemma chpl_single_lock_Unlocked:
  "lock (single_aux c) = Unlocked \<Longrightarrow>
   chpl_single_lock env c = Some (0, c\<lparr>single_aux := (single_aux c)\<lparr>lock := Locked\<rparr>\<rparr>, env)"
  by (simp add: chpl_single_lock_def suspend_until_ready)

lemma chpl_single_lock_held:
  "chpl_single_lock env c = Some (0, c', env') \<Longrightarrow> lock (single_aux c') = Locked"
  by (auto simp: chpl_single_lock_def EINVAL_def split: option.splits if_splits)

lemma chpl_single_lock_stuck:
  "lock (single_aux c) = Locked \<Longrightarrow> chpl_single_lock [] c = None"
  by (simp add: chpl_single_lock_def)

lemma chpl_single_write_EF_first:
  "lock (single_aux c) = Unlocked \<Longrightarrow> \<not> is_full (single_aux c) \<Longrightarrow>
   chpl_single_write_EF env c v ln fn =
     Returns (c\<lparr>value := v, single_aux := (single_aux c)\<lparr>is_full := True,
                signal_full := Suc (signal_full (single_aux c))\<rparr>\<rparr>, env, [])"
  by (simp add: chpl_single_write_EF_def chpl_single_lock_Unlocked chpl_single_is_full_def
      chpl_single_mark_and_signal_full_def single_unlock_def)

lemma chpl_single_write_EF_again:
  "lock (single_aux c) = Unlocked \<Longrightarrow> is_full (single_aux c) \<Longrightarrow>
   chpl_single_write_EF env c v ln fn =
     Returns (c\<lparr>single_aux := (single_aux c)\<lparr>lock := Locked\<rparr>\<rparr>, env,
       [(''single var already defined'', ln, fn)])"
  by (simp add: chpl_single_write_EF_def chpl_single_lock_Unlocked chpl_single_is_full_def
      chpl_error_def)

section \<open>Calls that wait on a single variable\<close>

lemma single_while_empty_length:
  "single_while_empty rc env c = Some (rc', c', env') \<Longrightarrow> length env' \<le> length env"
proof (induction rc env c rule: single_while_empty.induct)
  case (1 rc env c)
  show ?case
  proof (cases "rc = 0 \<and> \<not> is_full (single_aux c)")
    case True
    then obtain r1 c1 e1 where w: "single_cond_wait_full env c = Some (r1, c1, e1)"
      and rest: "single_while_empty r1 e1 c1 = Some (rc', c', env')"
      using "1.prems" by (auto simp: single_while_empty_step split: option.splits)
    have "length env' \<le> length e1" using "1.IH" True w rest by simp
    moreover have "length e1 < length env" using w by (rule single_cond_wait_full_shorter)
    ultimately show ?thesis by simp
  next
    case False
    then show ?thesis using "1.prems" by (auto simp: single_while_empty_stop)
  qed
qed

lemma single_while_empty_waits:
  assumes "single_while_empty 0 env c = Some (rc', c', env')" and "\<not> is_full (single_aux c)"
  shows "length env' < length env"
proof -
  from assms obtain r1 c1 e1 where w: "single_cond_wait_full env c = Some (r1, c1, e1)"
      and rest: "single_while_empty r1 e1 c1 = Some (rc', c', env')"
    by (auto simp: single_while_empty_step split: option.splits)
  have "length env' \<le> length e1" using rest by (rule single_while_empty_length)
  moreover have "length e1 < length env" using w by (rule single_cond_wait_full_shorter)
  ultimately show ?thesis by simp
qed

lemma single_cond_wait_full_held:
  "single_cond_wait_full env c = Some (0, c', env') \<Longrightarrow> lock (single_aux c') = Locked"
  by (auto simp: single_cond_wait_full_def split: option.splits dest: chpl_single_lock_held)

lemma single_while_empty_rc:
  "single_while_empty rc env c = Some (0, c', env') \<Longrightarrow> rc = 0"
  by (rule ccontr) (simp add: single_while_empty_stop)

lemma single_while_empty_full:
  "single_while_empty rc env c = Some (0, c', env') \<Longrightarrow> lock (single_aux c) = Locked \<Longrightarrow>
   is_full (single_aux c') \<and> lock (single_aux c') = Locked"
proof (induction rc env c rule: single_while_empty.induct)
  case (1 rc env c)
  have rc: "rc = 0" using "1.prems"(1) by (rule single_while_empty_rc)
  show ?case
  proof (cases "is_full (single_aux c)")
    case False
    then obtain r1 c1 e1 where w: "single_cond_wait_full env c = Some (r1, c1, e1)"
      and rest: "single_while_empty r1 e1 c1 = Some (0, c', env')"
      using "1.prems" rc by (auto simp: single_while_empty_step split: option.splits)
    have "r1 = 0" using rest by (rule single_while_empty_rc)
    then have "lock (single_aux c1) = Locked" using w by (auto dest: single_cond_wait_full_held)
    then show ?thesis using "1.IH" False rc w rest by simp
  next
    case True
    then show ?thesis using "1.prems" by (auto simp: single_while_empty_stop)
  qed
qed

lemma chpl_single_wait_full_result:
  assumes "chpl_single_wait_full env s ln fn = Some (0, s1, env1)"
  shows "is_full (single_aux s1) \<and> lock (single_aux s1) = Locked"
proof -
  from assms obtain rc c' env' where l: "chpl_single_lock env s = Some (rc, c', env')"
    and w: "single_while_empty rc env' c' = Some (0, s1, env1)"
    by (auto simp: chpl_single_wait_full_def split: option.splits)
  have "rc = 0" using w by (rule single_while_empty_rc)
  then have "lock (single_aux c') = Locked" using l by (auto dest: chpl_single_lock_held)
  then show ?thesis using w by (rule single_while_empty_full [rotated])
qed

lemma chpl_single_wait_full_waits:
  assumes "chpl_single_wait_full env s ln fn = Some (0, s1, env1)" and "\<not> is_full (single_aux s)"
  shows "length env1 < length env"
proof -
  from assms obtain rc c' env' where l: "chpl_single_lock env s = Some (rc, c', env')"
    and w: "single_while_empty rc env' c' = Some (0, s1, env1)"
    by (auto simp: chpl_single_wait_full_def split: option.splits)
  have rc: "rc = 0" using w by (rule single_while_empty_rc)
  have le1: "length env1 \<le> length env'" using w by (rule single_while_empty_length)
  show ?thesis
  proof (cases "lock (single_aux s) = Locked")
    case True
    then have "length env' < length env"
      using l by (auto simp: chpl_single_lock_def split: option.splits if_splits
          dest: suspend_until_shorter)
    with le1 show ?thesis by simp
  next
    case False
    then have "c' = s\<lparr>single_aux := (single_aux s)\<lparr>lock := Locked\<rparr>\<rparr> \<and> env' = env"
      using l rc
      by (auto simp: chpl_single_lock_def suspend_until_ready EINVAL_def split: if_splits)
    then show ?thesis using w rc assms(2) by (auto dest: single_while_empty_waits)
  qed
qed

lemma chpl_single_wait_full_stuck:
  assumes "\<not> is_full (single_aux c)" and "lock (single_aux c) \<noteq> Invalid"
  shows "chpl_single_wait_full [] c ln fn = None"
proof (cases "lock (single_aux c)")
  case Unlocked
  then show ?thesis using assms
    by (simp add: chpl_single_wait_full_def chpl_single_lock_Unlocked single_while_empty_step
        single_cond_wait_full_def single_unlock_def)
next
  case Locked
  then show ?thesis by (simp add: chpl_single_wait_full_def chpl_single_lock_stuck)
next
  case Invalid
  then show ?thesis using assms by simp
qed

lemma writer_wakes_reader:
  "chpl_single_wait_full [\<lambda>s. finished s (chpl_single_write_EF [] s 7 3 ''b.chpl'')]
     int_single_empty 1 ''a.chpl'' =
   Some (0, \<lparr>value = 7, single_aux = \<lparr>is_full = True, lock = Locked, signal_full = 1\<rparr>\<rparr>, [])"
  by (simp add: chpl_single_wait_full_def chpl_single_lock_def single_while_empty_step
      single_while_empty_stop single_cond_wait_full_def single_unlock_def finished_def
      chpl_single_write_EF_def chpl_single_is_full_def chpl_single_mark_and_signal_full_def
      int_single_empty_def)

lemma reset_wakes_nobody:
  assumes "\<not> is_full (single_aux c)" and "lock (single_aux c) \<noteq> Invalid"
  shows "chpl_single_wait_full [chpl_single_reset] c ln fn = None"
proof (cases "lock (single_aux c)")
  case Unlocked
  then show ?thesis using assms
    by (simp add: chpl_single_wait_full_def chpl_single_lock_Unlocked single_while_empty_step
        single_cond_wait_full_def single_unlock_def chpl_single_reset_def)
next
  case Locked
  then show ?thesis
    by (simp add: chpl_single_wait_full_def chpl_single_lock_def chpl_single_reset_def)
next
  case Invalid
  then show ?thesis using assms by simp
qed

section \<open>Sync variables\<close>

text \<open>
  C1. For every sync variable \<open>c\<close> that is Empty (with its lock free, as it is created)
  and every value \<open>v\<close>: \<^verbatim>\<open>writeEF(c, v)\<close> followed by \<^verbatim>\<open>readFE(c)\<close> returns \<open>v\<close> and leaves
  \<open>c\<close> in the Empty state. Neither call has to wait, so the other tasks take no step.
\<close>

theorem write_EF_then_read_FE:
  assumes "\<not> is_full (sync_aux c)" and "lock (sync_aux c) = Unlocked"
  shows "\<exists>c1 c2. chpl_write_EF env c v ln fn = Returns (c1, env)
           \<and> chpl_read_FE env x c1 ln' fn' = Returns (v, c2, env)
           \<and> \<not> is_full (sync_aux c2)"
  using assms by (simp add: chpl_write_EF_ready chpl_read_FE_ready)

theorem write_EF_then_read_FE_witness:
  "\<not> is_full (sync_aux int_sync_empty) \<and> lock (sync_aux int_sync_empty) = Unlocked
   \<and> (\<exists>c1 c2. chpl_write_EF [] int_sync_empty 42 1 ''a.chpl'' = Returns (c1, [])
           \<and> chpl_read_FE [] 0 c1 2 ''a.chpl'' = Returns (42, c2, [])
           \<and> \<not> is_full (sync_aux c2))"
  using write_EF_then_read_FE
    [where c = int_sync_empty and env = "[]" and v = 42 and ln = 1 and fn = "''a.chpl''"
       and x = 0 and ln' = 2 and fn' = "''a.chpl''"]
  by (simp add: int_sync_empty_def)

text \<open>
  C3. When the lock-acquisition primitive a macro calls reports a fault (a nonzero result
  code), \<^verbatim>\<open>writeEF\<close>, \<^verbatim>\<open>writeFF\<close>, \<^verbatim>\<open>writeXF\<close> and \<^verbatim>\<open>reset\<close> end in a fatal internal error whose
  message names the macro, whereas \<^verbatim>\<open>readFE\<close>, \<^verbatim>\<open>readFF\<close> and \<^verbatim>\<open>readXX\<close> return without any
  error and with the destination \<open>x\<close> as it was.
\<close>

theorem lock_fault_writes_abort_reads_skip:
  "(chpl_sync_wait_empty_and_lock env c ln fn = Some (r, c', env') \<and> r \<noteq> 0 \<longrightarrow>
      chpl_write_EF env c v ln fn = Aborts ''invalid mutex in _chpl_write_EF'')
   \<and> (chpl_sync_wait_full_and_lock env c ln fn = Some (r, c', env') \<and> r \<noteq> 0 \<longrightarrow>
      chpl_write_FF env c v ln fn = Aborts ''invalid mutex in _chpl_write_FF''
      \<and> chpl_read_FE env x c ln fn = Returns (x, c', env')
      \<and> chpl_read_FF env x c ln fn = Returns (x, c', env'))
   \<and> (chpl_sync_lock env c = Some (r, c', env') \<and> r \<noteq> 0 \<longrightarrow>
      chpl_write_XF env c v = Aborts ''invalid mutex in _chpl_write_XF''
      \<and> chpl_sync_reset env c = Aborts ''invalid mutex in _chpl_sync_reset''
      \<and> chpl_read_XX env x c = Returns (x, c', env'))"
  by (simp add: chpl_write_EF_def chpl_write_FF_def chpl_write_XF_def chpl_sync_reset_def
      chpl_read_FE_def chpl_read_FF_def chpl_read_XX_def chpl_internal_error_def)

theorem lock_fault_writes_abort_reads_skip_witness:
  "chpl_sync_wait_empty_and_lock [] int_sync_bad 1 ''a.chpl'' = Some (22, int_sync_bad, [])
   \<and> chpl_sync_wait_full_and_lock [] int_sync_bad 1 ''a.chpl'' = Some (22, int_sync_bad, [])
   \<and> chpl_sync_lock [] int_sync_bad = Some (22, int_sync_bad, [])
   \<and> (22::int) \<noteq> 0
   \<and> chpl_write_EF [] int_sync_bad 9 1 ''a.chpl'' = Aborts ''invalid mutex in _chpl_write_EF''
   \<and> chpl_write_FF [] int_sync_bad 9 1 ''a.chpl'' = Aborts ''invalid mutex in _chpl_write_FF''
   \<and> chpl_read_FE [] 3 int_sync_bad 1 ''a.chpl'' = Returns (3, int_sync_bad, [])
   \<and> chpl_read_FF [] 3 int_sync_bad 1 ''a.chpl'' = Returns (3, int_sync_bad, [])
   \<and> chpl_write_XF [] int_sync_bad 9 = Aborts ''invalid mutex in _chpl_write_XF''
   \<and> chpl_sync_reset [] int_sync_bad = Aborts ''invalid mutex in _chpl_sync_reset''
   \<and> chpl_read_XX [] 3 int_sync_bad = Returns (3, int_sync_bad, [])"
proof -
  have bad: "lock (sync_aux int_sync_bad) = Invalid" by (simp add: int_sync_bad_def)
  have l: "chpl_sync_lock [] int_sync_bad = Some (22, int_sync_bad, [])"
    using chpl_sync_lock_Invalid [OF bad, of "[]"] by (simp add: EINVAL_def)
  have w: "chpl_sync_wait_full_and_lock [] int_sync_bad 1 ''a.chpl'' = Some (22, int_sync_bad, [])
      \<and> chpl_sync_wait_empty_and_lock [] int_sync_bad 1 ''a.chpl'' = Some (22, int_sync_bad, [])"
    using chpl_sync_wait_Invalid [OF bad, of "[]" 1 "''a.chpl''"] by (simp add: EINVAL_def)
  show ?thesis
    using l w lock_fault_writes_abort_reads_skip
      [where env = "[]" and c = int_sync_bad and ln = 1 and fn = "''a.chpl''" and r = 22
         and c' = int_sync_bad and env' = "[]" and v = 9 and x = 3]
    by simp
qed

text \<open>
  C5. For every sync variable \<open>c\<close> made Full by \<^verbatim>\<open>writeEF(c, v)\<close>, every subsequent
  \<^verbatim>\<open>readFF(c)\<close> returns \<open>v\<close>, leaves the state Full and the value \<open>v\<close>, and signals the
  full-side condition variable once more: after \<open>n\<close> reads, \<open>n\<close> more wake-ups have been
  issued on it.
\<close>

theorem read_FF_after_write_EF:
  assumes "\<not> is_full (sync_aux c)" and "lock (sync_aux c) = Unlocked"
  shows "\<exists>c1. chpl_write_EF env c v ln fn = Returns (c1, env)
           \<and> (\<forall>n. \<exists>cn. chpl_read_FF_times n env x c1 ln' fn' = Returns (replicate n v, cn, env)
                 \<and> is_full (sync_aux cn) \<and> value cn = v
                 \<and> signal_full (sync_aux cn) = signal_full (sync_aux c1) + n)"
  using assms by (simp add: chpl_write_EF_ready read_FF_times_full)

theorem read_FF_after_write_EF_witness:
  "\<not> is_full (sync_aux int_sync_empty) \<and> lock (sync_aux int_sync_empty) = Unlocked
   \<and> (\<exists>c1. chpl_write_EF [] int_sync_empty 7 1 ''a.chpl'' = Returns (c1, [])
           \<and> (\<forall>n. \<exists>cn. chpl_read_FF_times n [] 0 c1 2 ''a.chpl'' = Returns (replicate n 7, cn, [])
                 \<and> is_full (sync_aux cn) \<and> value cn = 7
                 \<and> signal_full (sync_aux cn) = signal_full (sync_aux c1) + n))"
  using read_FF_after_write_EF
    [where c = int_sync_empty and env = "[]" and v = 7 and ln = 1 and fn = "''a.chpl''"
       and x = 0 and ln' = 2 and fn' = "''a.chpl''"]
  by (simp add: int_sync_empty_def)

text \<open>
  C6. For every sync variable \<open>c\<close> in the Full state, \<^verbatim>\<open>writeFF(c, v2)\<close> sets the value to
  \<open>v2\<close> while the state stays Full, and a following \<^verbatim>\<open>readFF(c)\<close> returns \<open>v2\<close>.
\<close>

theorem write_FF_then_read_FF:
  assumes "is_full (sync_aux c)" and "lock (sync_aux c) = Unlocked"
  shows "\<exists>c1 c2. chpl_write_FF env c v2 ln fn = Returns (c1, env)
           \<and> value c1 = v2 \<and> is_full (sync_aux c1)
           \<and> chpl_read_FF env x c1 ln' fn' = Returns (v2, c2, env)"
  using assms by (simp add: chpl_write_FF_ready chpl_read_FF_ready)

theorem write_FF_then_read_FF_witness:
  "is_full (sync_aux int_sync_full) \<and> lock (sync_aux int_sync_full) = Unlocked
   \<and> (\<exists>c1 c2. chpl_write_FF [] int_sync_full 6 1 ''a.chpl'' = Returns (c1, [])
           \<and> value c1 = 6 \<and> is_full (sync_aux c1)
           \<and> chpl_read_FF [] 0 c1 2 ''a.chpl'' = Returns (6, c2, []))"
  using write_FF_then_read_FF
    [where c = int_sync_full and env = "[]" and ?v2.0 = 6 and ln = 1 and fn = "''a.chpl''"
       and x = 0 and ln' = 2 and fn' = "''a.chpl''"]
  by (simp add: int_sync_full_def)

text \<open>
  C7. For every sync variable \<open>c\<close>, Empty or Full and whatever its value, \<^verbatim>\<open>reset(c)\<close>
  leaves \<open>c\<close> Empty with the value \<open>0\<close> and signals the empty-side condition variable.
  With the lock free the call returns at once; and however long it had to wait for the
  lock, a call that returns leaves the variable Empty with the value \<open>0\<close>.
\<close>

theorem sync_reset_empties:
  "(lock (sync_aux c) = Unlocked \<longrightarrow>
      (\<exists>c'. chpl_sync_reset env c = Returns (c', env)
         \<and> \<not> is_full (sync_aux c') \<and> value c' = 0
         \<and> signal_empty (sync_aux c') = Suc (signal_empty (sync_aux c))))
   \<and> (chpl_sync_reset env c = Returns (c'', env'') \<longrightarrow>
        \<not> is_full (sync_aux c'') \<and> value c'' = 0)"
proof -
  have ready: "\<exists>c'. chpl_sync_reset env c = Returns (c', env)
         \<and> \<not> is_full (sync_aux c') \<and> value c' = 0
         \<and> signal_empty (sync_aux c') = Suc (signal_empty (sync_aux c))"
    if "lock (sync_aux c) = Unlocked"
    using that by (simp add: chpl_sync_reset_ready)
  have returned: "\<not> is_full (sync_aux c'') \<and> value c'' = 0"
    if "chpl_sync_reset env c = Returns (c'', env'')"
    using that
    by (auto simp: chpl_sync_reset_def chpl_internal_error_def
        chpl_sync_mark_and_signal_empty_def chpl_sync_unlock_def
        split: option.splits if_splits)
  show ?thesis using ready returned by blast
qed

theorem sync_reset_empties_witness:
  "lock (sync_aux int_sync_full) = Unlocked \<and> is_full (sync_aux int_sync_full)
   \<and> value int_sync_full = 5
   \<and> chpl_sync_reset [] int_sync_full =
       Returns (\<lparr>value = 0, sync_aux = \<lparr>is_full = False, lock = Unlocked, signal_full = 1,
                  signal_empty = 1\<rparr>\<rparr>, [])
   \<and> (\<exists>c'. chpl_sync_reset [] int_sync_full = Returns (c', [])
         \<and> \<not> is_full (sync_aux c') \<and> value c' = 0
         \<and> signal_empty (sync_aux c') = Suc (signal_empty (sync_aux int_sync_full)))"
proof -
  have r: "chpl_sync_reset [] int_sync_full =
       Returns (\<lparr>value = 0, sync_aux = \<lparr>is_full = False, lock = Unlocked, signal_full = 1,
                  signal_empty = 1\<rparr>\<rparr>, [])"
    by (simp add: chpl_sync_reset_ready int_sync_full_def)
  show ?thesis
    using r sync_reset_empties
      [where c = int_sync_full and env = "[]" and env'' = "[]"
         and c'' = "\<lparr>value = 0, sync_aux = \<lparr>is_full = False, lock = Unlocked, signal_full = 1,
                  signal_empty = 1\<rparr>\<rparr>"]
    by (simp add: int_sync_full_def)
qed

text \<open>
  C8. \<^verbatim>\<open>readFE\<close> changes the fullness state (Full to Empty) and does not modify the stored
  value: the lock and the full-side condition variable are as before too. After
  \<^verbatim>\<open>writeEF(c, 42)\<close> and \<^verbatim>\<open>readFE(c)\<close>, a \<^verbatim>\<open>readXX(c)\<close> still returns 42 although the state is
  Empty.
\<close>

theorem read_FE_keeps_value:
  "(lock (sync_aux y) = Unlocked \<and> is_full (sync_aux y) \<longrightarrow>
      (\<exists>y'. chpl_read_FE env x y ln fn = Returns (value y, y', env)
         \<and> value y' = value y \<and> \<not> is_full (sync_aux y')
         \<and> lock (sync_aux y') = lock (sync_aux y)
         \<and> signal_full (sync_aux y') = signal_full (sync_aux y)))
   \<and> (lock (sync_aux c) = Unlocked \<and> \<not> is_full (sync_aux c) \<longrightarrow>
      (\<exists>c1 c2. chpl_write_EF env c (42::int) ln fn = Returns (c1, env)
         \<and> chpl_read_FE env x' c1 ln fn = Returns (42, c2, env)
         \<and> \<not> is_full (sync_aux c2)
         \<and> chpl_read_XX env x'' c2 = Returns (42, c2, env)))"
  by (simp add: chpl_write_EF_ready chpl_read_FE_ready chpl_read_XX_ready)

theorem read_FE_keeps_value_witness:
  "lock (sync_aux int_sync_full) = Unlocked \<and> is_full (sync_aux int_sync_full)
   \<and> (\<exists>y'. chpl_read_FE [] 0 int_sync_full 1 ''a.chpl'' = Returns (5, y', [])
         \<and> value y' = 5 \<and> \<not> is_full (sync_aux y')
         \<and> lock (sync_aux y') = Unlocked \<and> signal_full (sync_aux y') = 1)
   \<and> lock (sync_aux int_sync_empty) = Unlocked \<and> \<not> is_full (sync_aux int_sync_empty)
   \<and> (\<exists>c1 c2. chpl_write_EF [] int_sync_empty 42 1 ''a.chpl'' = Returns (c1, [])
         \<and> chpl_read_FE [] 0 c1 1 ''a.chpl'' = Returns (42, c2, [])
         \<and> \<not> is_full (sync_aux c2)
         \<and> chpl_read_XX [] 0 c2 = Returns (42, c2, []))"
  using read_FE_keeps_value
    [where y = int_sync_full and c = int_sync_empty and env = "[]" and x = 0 and x' = 0
       and x'' = 0 and ln = 1 and fn = "''a.chpl''"]
  by (simp add: int_sync_full_def int_sync_empty_def)

section \<open>Single variables\<close>

text \<open>
  C2, as stated, fails on the message. A first \<^verbatim>\<open>writeEF\<close> on an empty single variable
  succeeds; the second one reports \<^verbatim>\<open>single var already defined\<close>, which is not the text
  \<^verbatim>\<open>single variable already assigned\<close>.
\<close>

theorem single_second_write_EF_counterexample:
  "chpl_single_write_EF [] int_single_empty 1 8 ''a.chpl'' = Returns (int_single_written, [], [])
   \<and> reported_messages (chpl_single_write_EF [] int_single_written 2 9 ''a.chpl'')
       = [''single var already defined'']
   \<and> reported_messages (chpl_single_write_EF [] int_single_written 2 9 ''a.chpl'')
       \<noteq> [''single variable already assigned'']"
  by (simp add: chpl_single_write_EF_first chpl_single_write_EF_again reported_messages_def
      int_single_empty_def int_single_written_def)

text \<open>
  C2, amended. For every single variable \<open>s\<close> that is Full after a first successful
  \<^verbatim>\<open>writeEF(s, v)\<close>, a second \<^verbatim>\<open>writeEF(s, v2)\<close> reports one recoverable error, with the
  message \<^verbatim>\<open>single var already defined\<close> and the caller's source location, returns to the
  caller, and leaves the value equal to \<open>v\<close> and the state Full.
\<close>

theorem single_second_write_EF_reports:
  assumes "\<not> is_full (single_aux s)" and "lock (single_aux s) = Unlocked"
  shows "\<exists>s1 s2. chpl_single_write_EF env s v ln fn = Returns (s1, env, [])
           \<and> chpl_single_write_EF env s1 v2 ln' fn' =
               Returns (s2, env, [(''single var already defined'', ln', fn')])
           \<and> value s2 = v \<and> is_full (single_aux s2)"
  using assms by (simp add: chpl_single_write_EF_first chpl_single_write_EF_again)

theorem single_second_write_EF_reports_witness:
  "\<not> is_full (single_aux int_single_empty) \<and> lock (single_aux int_single_empty) = Unlocked
   \<and> (\<exists>s1 s2. chpl_single_write_EF [] int_single_empty 1 8 ''a.chpl'' = Returns (s1, [], [])
           \<and> chpl_single_write_EF [] s1 2 9 ''a.chpl'' =
               Returns (s2, [], [(''single var already defined'', 9, ''a.chpl'')])
           \<and> value s2 = 1 \<and> is_full (single_aux s2))"
  using single_second_write_EF_reports
    [where s = int_single_empty and env = "[]" and v = 1 and ln = 8 and fn = "''a.chpl''"
       and ?v2.0 = 2 and ln' = 9 and fn' = "''a.chpl''"]
  by (simp add: int_single_empty_def)

text \<open>
  C4. \<^verbatim>\<open>readFF\<close> on a single variable \<open>s\<close> first consults the non-blocking fullness check.
  If it reports Full, the call returns the value at once and leaves \<open>s\<close> and the other
  tasks untouched, whatever the state of the lock (free, held elsewhere or unusable): no
  lock is taken and nothing is signalled. Otherwise the call waits for the Full state:
  when the wait succeeds, at least one step of another task has gone by, the variable is
  Full, the value read is the one then stored, and the full-side condition variable is
  signalled once more before the lock is released; with no other task to fill the
  variable, the call never returns.
\<close>

theorem single_read_FF_fast_and_slow:
  "(is_full (single_aux s) \<longrightarrow> chpl_single_read_FF env x s ln fn = Returns (value s, s, env))
   \<and> (\<not> is_full (single_aux s) \<and> chpl_single_wait_full env s ln fn = Some (0, s1, env1) \<longrightarrow>
        is_full (single_aux s1) \<and> length env1 < length env
        \<and> chpl_single_read_FF env x s ln fn =
            Returns (value s1,
              s1\<lparr>single_aux := (single_aux s1)\<lparr>lock := Unlocked,
                   signal_full := Suc (signal_full (single_aux s1))\<rparr>\<rparr>, env1))
   \<and> (\<not> is_full (single_aux s) \<and> lock (single_aux s) \<noteq> Invalid \<longrightarrow>
        chpl_single_read_FF [] x s ln fn = Blocks)"
proof -
  have fast: "chpl_single_read_FF env x s ln fn = Returns (value s, s, env)"
    if "is_full (single_aux s)"
    using that by (simp add: chpl_single_read_FF_def chpl_single_is_full_def)
  have slow: "is_full (single_aux s1) \<and> length env1 < length env
        \<and> chpl_single_read_FF env x s ln fn =
            Returns (value s1,
              s1\<lparr>single_aux := (single_aux s1)\<lparr>lock := Unlocked,
                   signal_full := Suc (signal_full (single_aux s1))\<rparr>\<rparr>, env1)"
    if empty: "\<not> is_full (single_aux s)"
      and waited: "chpl_single_wait_full env s ln fn = Some (0, s1, env1)"
  proof -
    have full: "is_full (single_aux s1)" and held: "lock (single_aux s1) = Locked"
      using chpl_single_wait_full_result [OF waited] by simp_all
    have already: "(single_aux s1)\<lparr>is_full := True\<rparr> = single_aux s1"
      using full by (cases "single_aux s1") simp
    have shorter: "length env1 < length env"
      using waited empty by (rule chpl_single_wait_full_waits)
    have "chpl_single_read_FF env x s ln fn =
        Returns (value s1,
          s1\<lparr>single_aux := (single_aux s1)\<lparr>lock := Unlocked,
               signal_full := Suc (signal_full (single_aux s1))\<rparr>\<rparr>, env1)"
      using empty waited held already
      by (simp add: chpl_single_read_FF_def chpl_single_is_full_def
          chpl_single_mark_and_signal_full_def single_unlock_def)
    with full shorter show ?thesis by simp
  qed
  have stuck: "chpl_single_read_FF [] x s ln fn = Blocks"
    if "\<not> is_full (single_aux s)" and "lock (single_aux s) \<noteq> Invalid"
    using that
    by (simp add: chpl_single_read_FF_def chpl_single_is_full_def chpl_single_wait_full_stuck)
  show ?thesis using fast slow stuck by blast
qed

theorem single_read_FF_fast_and_slow_witness:
  "is_full (single_aux int_single_held) \<and> lock (single_aux int_single_held) = Locked
   \<and> chpl_single_read_FF [] 0 int_single_held 1 ''a.chpl'' = Returns (1, int_single_held, [])
   \<and> \<not> is_full (single_aux int_single_empty)
   \<and> lock (single_aux int_single_empty) \<noteq> Invalid
   \<and> chpl_single_wait_full [\<lambda>s. finished s (chpl_single_write_EF [] s 7 3 ''b.chpl'')]
         int_single_empty 1 ''a.chpl'' =
       Some (0, \<lparr>value = 7, single_aux = \<lparr>is_full = True, lock = Locked, signal_full = 1\<rparr>\<rparr>, [])
   \<and> chpl_single_read_FF [\<lambda>s. finished s (chpl_single_write_EF [] s 7 3 ''b.chpl'')]
         0 int_single_empty 1 ''a.chpl'' =
       Returns (7, \<lparr>value = 7, single_aux = \<lparr>is_full = True, lock = Unlocked, signal_full = 2\<rparr>\<rparr>, [])
   \<and> chpl_single_read_FF [] 0 int_single_empty 1 ''a.chpl'' = Blocks"
  using writer_wakes_reader
    single_read_FF_fast_and_slow
      [where s = int_single_held and env = "[]" and x = 0 and ln = 1 and fn = "''a.chpl''"]
    single_read_FF_fast_and_slow
      [where s = int_single_empty and x = 0 and ln = 1 and fn = "''a.chpl''"
         and env = "[\<lambda>s. finished s (chpl_single_write_EF [] s 7 3 ''b.chpl'')]"
         and ?s1.0 = "\<lparr>value = 7, single_aux = \<lparr>is_full = True, lock = Locked, signal_full = 1\<rparr>\<rparr>"
         and ?env1.0 = "[]"]
  by (simp add: int_single_held_def int_single_empty_def)

text \<open>
  C9. On a single variable that is already Full, \<^verbatim>\<open>writeEF\<close> reports the double write and
  returns to its caller with the lock still held: only the branch that writes releases
  it. Whenever a call returns, the lock is held afterwards if an error was reported and
  free if none was.
\<close>

theorem single_write_EF_error_keeps_lock:
  "(is_full (single_aux s) \<and> lock (single_aux s) = Unlocked \<longrightarrow>
      chpl_single_write_EF env s v2 ln fn =
        Returns (s\<lparr>single_aux := (single_aux s)\<lparr>lock := Locked\<rparr>\<rparr>, env,
          [chpl_error ''single var already defined'' ln fn]))
   \<and> (chpl_single_write_EF env s v2 ln fn = Returns (s', env', errs) \<and> errs \<noteq> [] \<longrightarrow>
        lock (single_aux s') = Locked)
   \<and> (chpl_single_write_EF env s v2 ln fn = Returns (s', env', errs) \<and> errs = [] \<longrightarrow>
        lock (single_aux s') = Unlocked)"
proof -
  have again: "chpl_single_write_EF env s v2 ln fn =
        Returns (s\<lparr>single_aux := (single_aux s)\<lparr>lock := Locked\<rparr>\<rparr>, env,
          [chpl_error ''single var already defined'' ln fn])"
    if "is_full (single_aux s)" and "lock (single_aux s) = Unlocked"
    using that by (simp add: chpl_single_write_EF_again chpl_error_def)
  have kept: "lock (single_aux s') = Locked"
    if "chpl_single_write_EF env s v2 ln fn = Returns (s', env', errs)" and "errs \<noteq> []"
    using that
    by (auto simp: chpl_single_write_EF_def chpl_internal_error_def
        split: option.splits if_splits dest: chpl_single_lock_held)
  have released: "lock (single_aux s') = Unlocked"
    if "chpl_single_write_EF env s v2 ln fn = Returns (s', env', errs)" and "errs = []"
    using that
    by (auto simp: chpl_single_write_EF_def chpl_internal_error_def
        chpl_single_mark_and_signal_full_def single_unlock_def
        split: option.splits if_splits dest: chpl_single_lock_held)
  show ?thesis using again kept released by blast
qed

theorem single_write_EF_error_keeps_lock_witness:
  "is_full (single_aux int_single_written) \<and> lock (single_aux int_single_written) = Unlocked
   \<and> chpl_single_write_EF [] int_single_written 2 9 ''a.chpl'' =
       Returns (int_single_held, [], [(''single var already defined'', 9, ''a.chpl'')])
   \<and> lock (single_aux int_single_held) = Locked
   \<and> chpl_single_write_EF [] int_single_empty 1 8 ''a.chpl'' =
       Returns (int_single_written, [], [])
   \<and> lock (single_aux int_single_written) = Unlocked"
proof -
  have first: "chpl_single_write_EF [] int_single_empty 1 8 ''a.chpl'' =
       Returns (int_single_written, [], [])"
    by (simp add: chpl_single_write_EF_first int_single_empty_def int_single_written_def)
  show ?thesis
    using first
      single_write_EF_error_keeps_lock
        [where s = int_single_written and env = "[]" and ?v2.0 = 2 and ln = 9
           and fn = "''a.chpl''" and s' = int_single_held and env' = "[]"
           and errs = "[(''single var already defined'', 9, ''a.chpl'')]"]
      single_write_EF_error_keeps_lock
        [where s = int_single_empty and env = "[]" and ?v2.0 = 1 and ln = 8
           and fn = "''a.chpl''" and s' = int_single_written and env' = "[]" and errs = "[]"]
    by (simp add: int_single_written_def int_single_held_def int_single_empty_def
        chpl_error_def)
qed

text \<open>
  C10. \<^verbatim>\<open>reset\<close> on a single variable, in any state, sets the value to \<open>0\<close> and the state
  to Empty by direct assignment: the lock is neither taken nor tested (it is left as it
  was, even when held elsewhere or unusable) and the condition variable is not
  signalled. In particular a task blocked in \<^verbatim>\<open>readFF\<close> is not woken by it.
\<close>

theorem single_reset_no_lock_no_signal:
  "value (chpl_single_reset s) = 0
   \<and> \<not> is_full (single_aux (chpl_single_reset s))
   \<and> lock (single_aux (chpl_single_reset s)) = lock (single_aux s)
   \<and> signal_full (single_aux (chpl_single_reset s)) = signal_full (single_aux s)
   \<and> (\<not> is_full (single_aux s) \<and> lock (single_aux s) \<noteq> Invalid \<longrightarrow>
        chpl_single_read_FF [chpl_single_reset] x s ln fn = Blocks)"
proof -
  have fields: "value (chpl_single_reset s) = 0
      \<and> \<not> is_full (single_aux (chpl_single_reset s))
      \<and> lock (single_aux (chpl_single_reset s)) = lock (single_aux s)
      \<and> signal_full (single_aux (chpl_single_reset s)) = signal_full (single_aux s)"
    by (simp add: chpl_single_reset_def)
  have asleep: "chpl_single_read_FF [chpl_single_reset] x s ln fn = Blocks"
    if "\<not> is_full (single_aux s)" and "lock (single_aux s) \<noteq> Invalid"
    using that
    by (simp add: chpl_single_read_FF_def chpl_single_is_full_def reset_wakes_nobody)
  show ?thesis using fields asleep by blast
qed

theorem single_reset_no_lock_no_signal_witness:
  "chpl_single_reset int_single_held =
     \<lparr>value = 0, single_aux = \<lparr>is_full = False, lock = Locked, signal_full = 1\<rparr>\<rparr>
   \<and> \<not> is_full (single_aux int_single_empty) \<and> lock (single_aux int_single_empty) \<noteq> Invalid
   \<and> chpl_single_read_FF [chpl_single_reset] 0 int_single_empty 1 ''a.chpl'' = Blocks"
  using single_reset_no_lock_no_signal
      [where s = int_single_empty and x = 0 and ln = 1 and fn = "''a.chpl''"]
  by (simp add: int_single_empty_def int_single_held_def chpl_single_reset_def)

end
